theory Spec2Isabelle
  imports Main
begin

section \<open>The Pulumi program \<open>index.ts\<close> as a resource graph\<close>

text \<open>
  \<open>index.ts\<close> is a straight-line TypeScript program: it reads the stack name, reads the
  wall clock once, constructs twelve resource objects one after the other and exports three
  values. The model keeps that shape. The two runtime inputs, \<open>pulumi.getStack()\<close> and
  \<open>Date.now()\<close>, are parameters; each \<open>new Resource(name, args)\<close> is a record holding the
  resource class, the logical name and the argument object as an association list in the
  order in which the source writes the keys.
\<close>

subsection \<open>Plain JavaScript values\<close>

text \<open>
  A number placed in a template literal is rendered in decimal. \<open>Date.now()\<close> is an
  integer far below \<open>10^21\<close>, so the rendering is the plain digit string, with a leading
  minus sign for a clock set before 1970.
\<close>

definition digitChar :: "nat \<Rightarrow> char" where
  "digitChar d = char_of (48 + d)"

function digits :: "nat \<Rightarrow> string" where
  "digits n = (if n < 10 then [digitChar n] else digits (n div 10) @ [digitChar (n mod 10)])"
  by pat_completeness auto
termination
  by (relation "measure id") auto

declare digits.simps [simp del]

definition numberToString :: "int \<Rightarrow> string" where
  "numberToString n = (if n < 0 then CHR ''-'' # digits (nat (- n)) else digits (nat n))"

text \<open>\<open>String.prototype.toUpperCase\<close>, on the ASCII letters the program applies it to.\<close>

definition upperChar :: "char \<Rightarrow> char" where
  "upperChar c =
     (if 97 \<le> (of_char c :: nat) \<and> (of_char c :: nat) \<le> 122
      then char_of ((of_char c :: nat) - 32) else c)"

definition toUpperCase :: "string \<Rightarrow> string" where
  "toUpperCase s = map upperChar s"

subsection \<open>\<open>JSON.stringify\<close>\<close>

text \<open>
  The objects the program serialises consist of strings, arrays and objects only, and
  every string literal of the program is ASCII, so a string is a list of bytes.
  \<open>JSON.stringify\<close> without an indent argument writes no white space, keeps the keys in
  insertion order and quotes every string, escaping the quote, the backslash and the
  control characters.
\<close>

datatype json = JStr string | JArr "json list" | JObj "(string \<times> json) list"

definition hexChar :: "nat \<Rightarrow> char" where
  "hexChar d = (if d < 10 then char_of (48 + d) else char_of (87 + d))"

definition quoteChar :: "char \<Rightarrow> string" where
  "quoteChar c =
     (let n = (of_char c :: nat) in
      if n = 8 then [CHR 0x5C, CHR ''b'']
      else if n = 9 then [CHR 0x5C, CHR ''t'']
      else if n = 10 then [CHR 0x5C, CHR ''n'']
      else if n = 12 then [CHR 0x5C, CHR ''f'']
      else if n = 13 then [CHR 0x5C, CHR ''r'']
      else if n = 34 then [CHR 0x5C, CHR 0x22]
      else if n = 92 then [CHR 0x5C, CHR 0x5C]
      else if n < 32 then [CHR 0x5C, CHR ''u'', CHR ''0'', CHR ''0'', hexChar (n div 16), hexChar (n mod 16)]
      else [c])"

definition quoteJSONString :: "string \<Rightarrow> string" where
  "quoteJSONString s = [CHR 0x22] @ concat (map quoteChar s) @ [CHR 0x22]"

fun commaJoin :: "string list \<Rightarrow> string" where
  "commaJoin [] = []"
| "commaJoin [x] = x"
| "commaJoin (x # y # ys) = x @ '','' @ commaJoin (y # ys)"

fun JSON_stringify :: "json \<Rightarrow> string" where
  "JSON_stringify (JStr s) = quoteJSONString s"
| "JSON_stringify (JArr xs) = ''['' @ commaJoin (map JSON_stringify xs) @ '']''"
| "JSON_stringify (JObj kvs) =
     ''{'' @ commaJoin (map (\<lambda>kv. quoteJSONString (fst kv) @ '':'' @ JSON_stringify (snd kv)) kvs) @ ''}''"

subsection \<open>Pulumi inputs, outputs and resource descriptors\<close>

text \<open>
  An argument of a resource is a Pulumi input of string type: a plain string known when the
  program runs (\<open>Lit\<close>), an output attribute of another resource, which the engine fills
  in after creating that resource (\<open>Attr\<close>, holding the resource's logical name and the
  attribute name), a \<open>pulumi.interpolate\<close> template over such values, or the result of
  \<open>pulumi.all([x]).apply(([v]) => f(v))\<close>, which runs \<open>f\<close> on the resolved value of \<open>x\<close>.
\<close>

datatype input =
    Lit string
  | Attr string string
  | Interpolate "input list"
  | Apply input "string \<Rightarrow> string"

text \<open>An argument object is a JavaScript object literal: keys in source order.\<close>

datatype argval =
    PStr input
  | PBool bool
  | PNum int
  | PList "argval list"
  | PObj "(string \<times> argval) list"

datatype resourceClass =
    aws_s3_Bucket
  | aws_s3_BucketPolicy
  | aws_iam_Role
  | aws_iam_RolePolicy
  | snowflake_Warehouse
  | snowflake_Database
  | snowflake_Schema
  | snowflake_StorageIntegration
  | snowflake_FileFormat
  | snowflake_Stage
  | snowflake_Table

record resource =
  kind :: resourceClass
  logicalName :: string
  args :: "(string \<times> argval) list"

text \<open>\<open>r.a\<close> for a resource object \<open>r\<close>: the output attribute \<open>a\<close> of \<open>r\<close>.\<close>

definition out :: "resource \<Rightarrow> string \<Rightarrow> input" where
  "out r a = Attr (logicalName r) a"

definition arg :: "resource \<Rightarrow> string \<Rightarrow> argval option" where
  "arg r k = map_of (args r) k"

text \<open>
  What the engine does with an input once the referenced resources exist: \<open>\<sigma> r a\<close> is the
  value the provider returned for attribute \<open>a\<close> of the resource with logical name \<open>r\<close>.
\<close>

fun resolve :: "(string \<Rightarrow> string \<Rightarrow> string) \<Rightarrow> input \<Rightarrow> string" where
  "resolve \<sigma> (Lit s) = s"
| "resolve \<sigma> (Attr r a) = \<sigma> r a"
| "resolve \<sigma> (Interpolate xs) = concat (map (resolve \<sigma>) xs)"
| "resolve \<sigma> (Apply x f) = f (resolve \<sigma> x)"

text \<open>The output attributes an input reads, as (logical name, attribute) pairs.\<close>

fun refs :: "input \<Rightarrow> (string \<times> string) list" where
  "refs (Lit s) = []"
| "refs (Attr r a) = [(r, a)]"
| "refs (Interpolate xs) = concat (map refs xs)"
| "refs (Apply x f) = refs x"

fun propRefs :: "argval \<Rightarrow> (string \<times> string) list" where
  "propRefs (PStr x) = refs x"
| "propRefs (PBool b) = []"
| "propRefs (PNum n) = []"
| "propRefs (PList ps) = concat (map propRefs ps)"
| "propRefs (PObj kvs) = concat (map (\<lambda>kv. propRefs (snd kv)) kvs)"

definition resourceRefs :: "resource \<Rightarrow> (string \<times> string) list" where
  "resourceRefs r = concat (map (\<lambda>kv. propRefs (snd kv)) (args r))"

text \<open>The resources a descriptor depends on: those whose attributes it reads.\<close>

definition deps :: "resource \<Rightarrow> string list" where
  "deps r = map fst (resourceRefs r)"

subsection \<open>Configuration\<close>

definition projectName :: string where
  "projectName = ''data-pipeline''"

subsection \<open>AWS resources\<close>

definition dataBucket :: "string \<Rightarrow> int \<Rightarrow> resource" where
  "dataBucket environment now = \<lparr>
     kind = aws_s3_Bucket,
     logicalName = projectName @ ''-bucket'',
     args = [
       (''bucket'', PStr (Lit (projectName @ ''-data-'' @ environment @ ''-'' @ numberToString now))),
       (''forceDestroy'', PBool True),
       (''tags'', PObj [
          (''Project'', PStr (Lit projectName)),
          (''Environment'', PStr (Lit environment)),
          (''ManagedBy'', PStr (Lit ''Pulumi''))])] \<rparr>"

definition bucketPolicyDocument :: "string \<Rightarrow> json" where
  "bucketPolicyDocument bucketArn = JObj [
     (''Version'', JStr ''2012-10-17''),
     (''Statement'', JArr [
        JObj [
          (''Sid'', JStr ''AllowSnowflakeAccess''),
          (''Effect'', JStr ''Allow''),
          (''Principal'', JStr ''*''),
          (''Action'', JArr [JStr ''s3:GetObject'', JStr ''s3:GetObjectVersion'', JStr ''s3:ListBucket'']),
          (''Resource'', JArr [JStr bucketArn, JStr (bucketArn @ ''/*'')])]])]"

definition bucketPolicy :: "string \<Rightarrow> int \<Rightarrow> resource" where
  "bucketPolicy environment now = \<lparr>
     kind = aws_s3_BucketPolicy,
     logicalName = projectName @ ''-bucket-policy'',
     args = [
       (''bucket'', PStr (out (dataBucket environment now) ''id'')),
       (''policy'', PStr (Apply (out (dataBucket environment now) ''arn'')
          (\<lambda>bucketArn. JSON_stringify (bucketPolicyDocument bucketArn))))] \<rparr>"

definition assumeRolePolicyDocument :: json where
  "assumeRolePolicyDocument = JObj [
     (''Version'', JStr ''2012-10-17''),
     (''Statement'', JArr [
        JObj [
          (''Effect'', JStr ''Allow''),
          (''Principal'', JObj [(''AWS'', JStr ''*'')]),
          (''Action'', JStr ''sts:AssumeRole''),
          (''Condition'', JObj [
             (''StringEquals'', JObj [(''sts:ExternalId'', JStr ''snowflake_external_id'')])])]])]"

definition snowflakeRole :: "string \<Rightarrow> resource" where
  "snowflakeRole environment = \<lparr>
     kind = aws_iam_Role,
     logicalName = projectName @ ''-snowflake-role'',
     args = [
       (''name'', PStr (Lit (projectName @ ''-snowflake-access-'' @ environment))),
       (''assumeRolePolicy'', PStr (Lit (JSON_stringify assumeRolePolicyDocument))),
       (''tags'', PObj [
          (''Project'', PStr (Lit projectName)),
          (''Environment'', PStr (Lit environment)),
          (''ManagedBy'', PStr (Lit ''Pulumi''))])] \<rparr>"

definition snowflakePolicyDocument :: "string \<Rightarrow> json" where
  "snowflakePolicyDocument bucketArn = JObj [
     (''Version'', JStr ''2012-10-17''),
     (''Statement'', JArr [
        JObj [
          (''Effect'', JStr ''Allow''),
          (''Action'', JArr [JStr ''s3:GetObject'', JStr ''s3:GetObjectVersion'',
                            JStr ''s3:ListBucket'', JStr ''s3:GetBucketLocation'']),
          (''Resource'', JArr [JStr bucketArn, JStr (bucketArn @ ''/*'')])]])]"

definition snowflakePolicy :: "string \<Rightarrow> int \<Rightarrow> resource" where
  "snowflakePolicy environment now = \<lparr>
     kind = aws_iam_RolePolicy,
     logicalName = projectName @ ''-snowflake-policy'',
     args = [
       (''role'', PStr (out (snowflakeRole environment) ''id'')),
       (''policy'', PStr (Apply (out (dataBucket environment now) ''arn'')
          (\<lambda>bucketArn. JSON_stringify (snowflakePolicyDocument bucketArn))))] \<rparr>"

subsection \<open>Snowflake resources\<close>

definition warehouse :: resource where
  "warehouse = \<lparr>
     kind = snowflake_Warehouse,
     logicalName = projectName @ ''-warehouse'',
     args = [
       (''name'', PStr (Lit (toUpperCase projectName @ ''_WH''))),
       (''warehouseSize'', PStr (Lit ''X-SMALL'')),
       (''autoSuspend'', PNum 60),
       (''autoResume'', PBool True),
       (''comment'', PStr (Lit ''Data pipeline warehouse managed by Pulumi''))] \<rparr>"

definition database :: resource where
  "database = \<lparr>
     kind = snowflake_Database,
     logicalName = projectName @ ''-database'',
     args = [
       (''name'', PStr (Lit (toUpperCase projectName @ ''_DB''))),
       (''comment'', PStr (Lit ''Data pipeline database managed by Pulumi''))] \<rparr>"

definition schema :: resource where
  "schema = \<lparr>
     kind = snowflake_Schema,
     logicalName = projectName @ ''-schema'',
     args = [
       (''name'', PStr (Lit ''RAW'')),
       (''database'', PStr (out database ''name'')),
       (''comment'', PStr (Lit ''Raw data landing schema''))] \<rparr>"

definition storageIntegration :: "string \<Rightarrow> int \<Rightarrow> resource" where
  "storageIntegration environment now = \<lparr>
     kind = snowflake_StorageIntegration,
     logicalName = projectName @ ''-storage-integration'',
     args = [
       (''name'', PStr (Lit (toUpperCase projectName @ ''_S3_INT''))),
       (''type'', PStr (Lit ''EXTERNAL_STAGE'')),
       (''storageProvider'', PStr (Lit ''S3'')),
       (''enabled'', PBool True),
       (''storageAwsRoleArn'', PStr (out (snowflakeRole environment) ''arn'')),
       (''storageAllowedLocations'', PList [
          PStr (Interpolate [Lit ''s3://'', out (dataBucket environment now) ''bucket'', Lit ''/''])]),
       (''comment'', PStr (Lit ''S3 storage integration managed by Pulumi''))] \<rparr>"

definition csvFileFormat :: resource where
  "csvFileFormat = \<lparr>
     kind = snowflake_FileFormat,
     logicalName = projectName @ ''-csv-format'',
     args = [
       (''name'', PStr (Lit ''CSV_FORMAT'')),
       (''database'', PStr (out database ''name'')),
       (''schema'', PStr (out schema ''name'')),
       (''formatType'', PStr (Lit ''CSV'')),
       (''fieldDelimiter'', PStr (Lit '','')),
       (''skipHeader'', PNum 1),
       (''nullIf'', PList [PStr (Lit ''NULL''), PStr (Lit ''null''), PStr (Lit [])]),
       (''emptyFieldAsNull'', PBool True),
       (''comment'', PStr (Lit ''CSV file format for data ingestion''))] \<rparr>"

definition parquetFileFormat :: resource where
  "parquetFileFormat = \<lparr>
     kind = snowflake_FileFormat,
     logicalName = projectName @ ''-parquet-format'',
     args = [
       (''name'', PStr (Lit ''PARQUET_FORMAT'')),
       (''database'', PStr (out database ''name'')),
       (''schema'', PStr (out schema ''name'')),
       (''formatType'', PStr (Lit ''PARQUET'')),
       (''comment'', PStr (Lit ''Parquet file format for data ingestion''))] \<rparr>"

definition s3Stage :: "string \<Rightarrow> int \<Rightarrow> resource" where
  "s3Stage environment now = \<lparr>
     kind = snowflake_Stage,
     logicalName = projectName @ ''-s3-stage'',
     args = [
       (''name'', PStr (Lit ''S3_STAGE'')),
       (''database'', PStr (out database ''name'')),
       (''schema'', PStr (out schema ''name'')),
       (''url'', PStr (Interpolate [Lit ''s3://'', out (dataBucket environment now) ''bucket'', Lit ''/raw/''])),
       (''storageIntegration'', PStr (out (storageIntegration environment now) ''name'')),
       (''comment'', PStr (Lit ''External S3 stage managed by Pulumi''))] \<rparr>"

definition taxiTable :: resource where
  "taxiTable = \<lparr>
     kind = snowflake_Table,
     logicalName = projectName @ ''-taxi-table'',
     args = [
       (''name'', PStr (Lit ''TAXI_DATA'')),
       (''database'', PStr (out database ''name'')),
       (''schema'', PStr (out schema ''name'')),
       (''columns'', PList [
          PObj [(''name'', PStr (Lit ''VENDOR_ID'')), (''type'', PStr (Lit ''NUMBER''))],
          PObj [(''name'', PStr (Lit ''PICKUP_DATETIME'')), (''type'', PStr (Lit ''TIMESTAMP''))],
          PObj [(''name'', PStr (Lit ''DROPOFF_DATETIME'')), (''type'', PStr (Lit ''TIMESTAMP''))],
          PObj [(''name'', PStr (Lit ''PASSENGER_COUNT'')), (''type'', PStr (Lit ''NUMBER''))],
          PObj [(''name'', PStr (Lit ''TRIP_DISTANCE'')), (''type'', PStr (Lit ''FLOAT''))],
          PObj [(''name'', PStr (Lit ''PICKUP_LOCATION_ID'')), (''type'', PStr (Lit ''NUMBER''))],
          PObj [(''name'', PStr (Lit ''DROPOFF_LOCATION_ID'')), (''type'', PStr (Lit ''NUMBER''))],
          PObj [(''name'', PStr (Lit ''FARE_AMOUNT'')), (''type'', PStr (Lit ''FLOAT''))],
          PObj [(''name'', PStr (Lit ''TIP_AMOUNT'')), (''type'', PStr (Lit ''FLOAT''))],
          PObj [(''name'', PStr (Lit ''TOTAL_AMOUNT'')), (''type'', PStr (Lit ''FLOAT''))],
          PObj [(''name'', PStr (Lit ''LOADED_AT'')), (''type'', PStr (Lit ''TIMESTAMP'')),
                (''default'', PObj [(''expression'', PStr (Lit ''CURRENT_TIMESTAMP()''))])]]),
       (''comment'', PStr (Lit ''NYC Taxi trip data loaded from S3''))] \<rparr>"

text \<open>The resources in the order in which the program constructs them.\<close>

definition program :: "string \<Rightarrow> int \<Rightarrow> resource list" where
  "program environment now = [
     dataBucket environment now,
     bucketPolicy environment now,
     snowflakeRole environment,
     snowflakePolicy environment now,
     warehouse,
     database,
     schema,
     storageIntegration environment now,
     csvFileFormat,
     parquetFileFormat,
     s3Stage environment now,
     taxiTable]"

subsection \<open>Exports\<close>

text \<open>
  The module exports three constants: two object literals whose fields are output
  attributes, and one interpolated text.
\<close>

datatype exported = ExportObject "(string \<times> input) list" | ExportValue input

definition awsOutputs :: "string \<Rightarrow> int \<Rightarrow> (string \<times> input) list" where
  "awsOutputs environment now = [
     (''bucketName'', out (dataBucket environment now) ''bucket''),
     (''bucketArn'', out (dataBucket environment now) ''arn''),
     (''roleArn'', out (snowflakeRole environment) ''arn''),
     (''roleName'', out (snowflakeRole environment) ''name'')]"

definition snowflakeOutputs :: "string \<Rightarrow> int \<Rightarrow> (string \<times> input) list" where
  "snowflakeOutputs environment now = [
     (''warehouseName'', out warehouse ''name''),
     (''databaseName'', out database ''name''),
     (''schemaName'', out schema ''name''),
     (''stageName'', out (s3Stage environment now) ''name''),
     (''tableName'', out taxiTable ''name''),
     (''storageIntegrationName'', out (storageIntegration environment now) ''name'')]"

definition nl :: string where
  "nl = [CHR 0x0A]"

definition instructions :: "string \<Rightarrow> int \<Rightarrow> input" where
  "instructions environment now = Interpolate [
      Lit (nl @
           ''================================================================================'' @
           nl @ ''DEPLOYMENT COMPLETE! Next steps:'' @ nl @
           ''================================================================================'' @
           nl @ nl @ ''1. Upload sample data to S3:'' @ nl @
           ''   aws s3 cp data/sample.csv s3://''),
      out (dataBucket environment now) ''bucket'',
      Lit (''/raw/'' @ nl @ nl @ ''2. Or download NYC Taxi data (1M+ rows):'' @ nl @
           ''   wget https://d37ci6vzurychx.cloudfront.net/trip-data/yellow_tripdata_2024-01.parquet'' @
           nl @ ''   aws s3 cp yellow_tripdata_2024-01.parquet s3://''),
      out (dataBucket environment now) ''bucket'',
      Lit (''/raw/'' @ nl @ nl @ ''3. Run COPY INTO in Snowflake to load data:'' @ nl @
           ''   USE WAREHOUSE ''),
      out warehouse ''name'',
      Lit ('';'' @ nl @ ''   USE DATABASE ''),
      out database ''name'',
      Lit ('';'' @ nl @ ''   USE SCHEMA ''),
      out schema ''name'',
      Lit ('';'' @ nl @ nl @ ''   COPY INTO TAXI_DATA'' @ nl @ ''   FROM @S3_STAGE'' @ nl @
           ''   FILE_FORMAT = PARQUET_FORMAT'' @ nl @
           ''   MATCH_BY_COLUMN_NAME = CASE_INSENSITIVE;'' @ nl @ nl @
           ''4. Verify data loaded:'' @ nl @ ''   SELECT COUNT(*) FROM TAXI_DATA;'' @ nl @
           ''   -- Should show 1M+ rows loaded in <30 seconds!'' @ nl @ nl @
           ''================================================================================'' @
           nl)]"

definition exports :: "string \<Rightarrow> int \<Rightarrow> (string \<times> exported) list" where
  "exports environment now = [
     (''awsOutputs'', ExportObject (awsOutputs environment now)),
     (''snowflakeOutputs'', ExportObject (snowflakeOutputs environment now)),
     (''instructions'', ExportValue (instructions environment now))]"

subsection \<open>Reading descriptors and policy documents\<close>

text \<open>
  Accessors used to state properties: \<open>arg\<close> and \<open>strArg\<close> read a key of a resource's
  argument object, \<open>field\<close> a key of a nested object, \<open>jsonMember\<close> and \<open>path\<close> a key
  or a chain of keys of a JSON document.
\<close>

definition strArg :: "resource \<Rightarrow> string \<Rightarrow> input option" where
  "strArg r k = (case arg r k of Some (PStr x) \<Rightarrow> Some x | _ \<Rightarrow> None)"

fun jsonMember :: "json \<Rightarrow> string \<Rightarrow> json option" where
  "jsonMember (JObj kvs) k = map_of kvs k"
| "jsonMember (JStr s) k = None"
| "jsonMember (JArr xs) k = None"

fun elements :: "json option \<Rightarrow> json list" where
  "elements (Some (JArr xs)) = xs"
| "elements v = []"

definition statements :: "json \<Rightarrow> json list" where
  "statements doc = elements (jsonMember doc ''Statement'')"

fun path :: "json \<Rightarrow> string list \<Rightarrow> json option" where
  "path j [] = Some j"
| "path j (k # ks) = (case jsonMember j k of None \<Rightarrow> None | Some v \<Rightarrow> path v ks)"

fun field :: "argval \<Rightarrow> string \<Rightarrow> argval option" where
  "field (PObj kvs) k = map_of kvs k"
| "field v k = None"

definition columns :: "resource \<Rightarrow> argval list" where
  "columns r = (case arg r ''columns'' of Some (PList cs) \<Rightarrow> cs | _ \<Rightarrow> [])"

fun isSnowflake :: "resourceClass \<Rightarrow> bool" where
  "isSnowflake aws_s3_Bucket = False"
| "isSnowflake aws_s3_BucketPolicy = False"
| "isSnowflake aws_iam_Role = False"
| "isSnowflake aws_iam_RolePolicy = False"
| "isSnowflake k = True"

definition snowflakeNames :: "resource list \<Rightarrow> input option list" where
  "snowflakeNames rs = map (\<lambda>r. strArg r ''name'') (filter (\<lambda>r. isSnowflake (kind r)) rs)"

subsection \<open>The dependency graph and the exported surface\<close>

text \<open>
  The engine orders creation by attribute references: a resource waits for every resource
  whose output it reads. \<open>declaredBefore seen rs\<close> walks the program in declaration order
  and checks that each descriptor reads only outputs of resources already declared.
\<close>

fun declaredBefore :: "string list \<Rightarrow> resource list \<Rightarrow> bool" where
  "declaredBefore seen [] = True"
| "declaredBefore seen (r # rs) =
     (list_all (\<lambda>d. d \<in> set seen) (deps r) \<and> declaredBefore (seen @ [logicalName r]) rs)"

definition dependencyEdges :: "resource list \<Rightarrow> (string \<times> string) set" where
  "dependencyEdges rs = set (concat (map (\<lambda>r. map (\<lambda>d. (logicalName r, d)) (deps r)) rs))"

text \<open>An export surface is flat when every exported name is bound to a single value.\<close>

fun isValue :: "exported \<Rightarrow> bool" where
  "isValue (ExportValue v) = True"
| "isValue (ExportObject kvs) = False"

definition isFlat :: "(string \<times> exported) list \<Rightarrow> bool" where
  "isFlat es = list_all (\<lambda>kv. isValue (snd kv)) es"

fun members :: "exported \<Rightarrow> (string \<times> input) list" where
  "members (ExportObject kvs) = kvs"
| "members (ExportValue v) = []"

definition exportedIdentifiers :: "(string \<times> exported) list \<Rightarrow> (string \<times> input) list" where
  "exportedIdentifiers es = concat (map (\<lambda>kv. members (snd kv)) es)"

section \<open>Properties of the program\<close>

subsection \<open>The decimal rendering of the clock reading is injective\<close>

lemma digitChar_code: "d < 10 \<Longrightarrow> (of_char (digitChar d) :: nat) = 48 + d"
proof -
  assume "d < 10"
  then have "(48 + d) mod 256 = 48 + d" by simp
  then show ?thesis unfolding digitChar_def of_char_of .
qed

lemma digitChar_inj: "a < 10 \<Longrightarrow> b < 10 \<Longrightarrow> digitChar a = digitChar b \<Longrightarrow> a = b"
proof -
  assume a: "a < 10" and b: "b < 10" and e: "digitChar a = digitChar b"
  from e have "(of_char (digitChar a) :: nat) = of_char (digitChar b)"
    by (rule arg_cong)
  then have "48 + a = 48 + b"
    unfolding digitChar_code[OF a] digitChar_code[OF b] .
  then show "a = b"
    by (rule add_left_imp_eq)
qed

lemma digits_not_Nil: "digits n \<noteq> []"
  by (subst digits.simps) simp

lemma digits_inj: "digits m = digits n \<Longrightarrow> m = n"
proof (induction m arbitrary: n rule: digits.induct)
  case (1 m)
  show ?case
  proof (cases "m < 10")
    case small: True
    show ?thesis
    proof (cases "n < 10")
      case True
      with small 1(2) show ?thesis
        by (simp add: digits.simps[of m] digits.simps[of n] digitChar_inj)
    next
      case False
      with small 1(2) show ?thesis
        by (simp add: digits.simps[of m] digits.simps[of n] digits_not_Nil digits_not_Nil[symmetric])
    qed
  next
    case big: False
    show ?thesis
    proof (cases "n < 10")
      case True
      with big 1(2) show ?thesis
        by (simp add: digits.simps[of m] digits.simps[of n] digits_not_Nil digits_not_Nil[symmetric])
    next
      case False
      with big 1(2) have d: "digits (m div 10) = digits (n div 10)"
        and c: "digitChar (m mod 10) = digitChar (n mod 10)"
        by (simp_all add: digits.simps[of m] digits.simps[of n])
      from 1(1)[OF big d] have "m div 10 = n div 10" .
      moreover from c have "m mod 10 = n mod 10"
        by (intro digitChar_inj) simp_all
      ultimately show ?thesis
        by (metis div_mult_mod_eq)
    qed
  qed
qed

lemma digitChar_not_minus: "d < 10 \<Longrightarrow> digitChar d \<noteq> CHR ''-''"
proof
  assume d: "d < 10" and e: "digitChar d = CHR ''-''"
  from e have "(of_char (digitChar d) :: nat) = of_char CHR ''-''"
    by (rule arg_cong)
  then show False
    unfolding digitChar_code[OF d] by simp
qed

lemma digits_no_minus: "CHR ''-'' \<notin> set (digits n)"
proof (induction n rule: digits.induct)
  case (1 n)
  show ?case
  proof (cases "n < 10")
    case True
    then show ?thesis
      using digitChar_not_minus[of n] by (simp add: digits.simps[of n])
  next
    case False
    then show ?thesis
      using 1 digitChar_not_minus[of "n mod 10"] by (simp add: digits.simps[of n])
  qed
qed

lemma numberToString_inj: "numberToString a = numberToString b \<Longrightarrow> a = b"
proof -
  assume e: "numberToString a = numberToString b"
  consider "a < 0" "b < 0" | "a < 0" "0 \<le> b" | "0 \<le> a" "b < 0" | "0 \<le> a" "0 \<le> b"
    by linarith
  then show ?thesis
  proof cases
    case 1
    with e have "digits (nat (- a)) = digits (nat (- b))"
      by (simp add: numberToString_def)
    then have "nat (- a) = nat (- b)" by (rule digits_inj)
    with 1 show ?thesis by simp
  next
    case 2
    with e have "digits (nat b) = CHR ''-'' # digits (nat (- a))"
      by (simp add: numberToString_def)
    then have "CHR ''-'' \<in> set (digits (nat b))"
      by simp
    then show ?thesis by (simp add: digits_no_minus)
  next
    case 3
    with e have "CHR ''-'' \<in> set (digits (nat a))"
      by (simp add: numberToString_def)
    then show ?thesis by (simp add: digits_no_minus)
  next
    case 4
    with e have "digits (nat a) = digits (nat b)"
      by (simp add: numberToString_def)
    then have "nat a = nat b" by (rule digits_inj)
    with 4 show ?thesis by simp
  qed
qed

lemma first_split:
  assumes "c \<notin> set xs" and "c \<notin> set xs'" and "xs @ c # ys = xs' @ c # ys'"
  shows "ys = ys'"
proof -
  have "dropWhile (\<lambda>y. y \<noteq> c) (xs @ c # ys) = c # ys"
    using assms(1) by (auto simp add: dropWhile_append3)
  moreover have "dropWhile (\<lambda>y. y \<noteq> c) (xs' @ c # ys') = c # ys'"
    using assms(2) by (auto simp add: dropWhile_append3)
  ultimately show ?thesis
    using assms(3) by simp
qed

lemma split_at_last:
  assumes "c \<notin> set ys" and "c \<notin> set ys'" and "xs @ c # ys = xs' @ c # ys'"
  shows "xs = xs'"
proof -
  from assms(3) have "rev (xs @ c # ys) = rev (xs' @ c # ys')" by simp
  then have "rev ys @ c # rev xs = rev ys' @ c # rev xs'" by simp
  moreover have "c \<notin> set (rev ys)" "c \<notin> set (rev ys')" using assms(1,2) by simp_all
  ultimately have "rev xs = rev xs'"
    by (rule first_split[rotated 2])
  then show ?thesis by simp
qed

lemma bucket_name_inj:
  assumes "0 \<le> t1" and "0 \<le> t2"
    and "p @ e1 @ ''-'' @ numberToString t1 = p @ e2 @ ''-'' @ numberToString t2"
  shows "e1 = e2"
proof -
  from assms have "e1 @ CHR ''-'' # digits (nat t1) = e2 @ CHR ''-'' # digits (nat t2)"
    by (simp add: numberToString_def)
  then show ?thesis
    using split_at_last[OF digits_no_minus digits_no_minus] by blast
qed

lemma numberToString_example: "numberToString 1700000000000 = ''1700000000000''"
  by (simp add: numberToString_def digits.simps digitChar_def char_of_def bit_0)

lemma toUpperCase_projectName: "toUpperCase projectName = ''DATA-PIPELINE''"
  by (simp add: toUpperCase_def projectName_def upperChar_def char_of_def bit_0)

subsection \<open>The descriptors, evaluated\<close>

lemma kinds:
  "map kind (program environment now) =
     [aws_s3_Bucket, aws_s3_BucketPolicy, aws_iam_Role, aws_iam_RolePolicy,
      snowflake_Warehouse, snowflake_Database, snowflake_Schema, snowflake_StorageIntegration,
      snowflake_FileFormat, snowflake_FileFormat, snowflake_Stage, snowflake_Table]"
  by (simp add: program_def dataBucket_def bucketPolicy_def
      snowflakeRole_def snowflakePolicy_def warehouse_def database_def schema_def
      storageIntegration_def csvFileFormat_def parquetFileFormat_def s3Stage_def taxiTable_def)

lemma names:
  "map logicalName (program environment now) =
     [''data-pipeline-bucket'', ''data-pipeline-bucket-policy'', ''data-pipeline-snowflake-role'',
      ''data-pipeline-snowflake-policy'', ''data-pipeline-warehouse'', ''data-pipeline-database'',
      ''data-pipeline-schema'', ''data-pipeline-storage-integration'', ''data-pipeline-csv-format'',
      ''data-pipeline-parquet-format'', ''data-pipeline-s3-stage'', ''data-pipeline-taxi-table'']"
  by (simp add: program_def dataBucket_def bucketPolicy_def
      snowflakeRole_def snowflakePolicy_def warehouse_def database_def schema_def
      storageIntegration_def csvFileFormat_def parquetFileFormat_def s3Stage_def taxiTable_def
      projectName_def)

lemma logicalName_simps:
  "logicalName (dataBucket environment now) = ''data-pipeline-bucket''"
  "logicalName (bucketPolicy environment now) = ''data-pipeline-bucket-policy''"
  "logicalName (snowflakeRole environment) = ''data-pipeline-snowflake-role''"
  "logicalName (snowflakePolicy environment now) = ''data-pipeline-snowflake-policy''"
  "logicalName warehouse = ''data-pipeline-warehouse''"
  "logicalName database = ''data-pipeline-database''"
  "logicalName schema = ''data-pipeline-schema''"
  "logicalName (storageIntegration environment now) = ''data-pipeline-storage-integration''"
  "logicalName csvFileFormat = ''data-pipeline-csv-format''"
  "logicalName parquetFileFormat = ''data-pipeline-parquet-format''"
  "logicalName (s3Stage environment now) = ''data-pipeline-s3-stage''"
  "logicalName taxiTable = ''data-pipeline-taxi-table''"
  by (simp_all add: dataBucket_def bucketPolicy_def
      snowflakeRole_def snowflakePolicy_def warehouse_def database_def schema_def
      storageIntegration_def csvFileFormat_def parquetFileFormat_def s3Stage_def taxiTable_def
      projectName_def)

lemma out_bucket [simp]: "out (dataBucket environment now) a = Attr ''data-pipeline-bucket'' a"
  by (simp add: out_def dataBucket_def projectName_def)

lemma out_role [simp]: "out (snowflakeRole environment) a = Attr ''data-pipeline-snowflake-role'' a"
  by (simp add: out_def snowflakeRole_def projectName_def)

lemma out_warehouse [simp]: "out warehouse a = Attr ''data-pipeline-warehouse'' a"
  by (simp add: out_def warehouse_def projectName_def)

lemma out_database [simp]: "out database a = Attr ''data-pipeline-database'' a"
  by (simp add: out_def database_def projectName_def)

lemma out_schema [simp]: "out schema a = Attr ''data-pipeline-schema'' a"
  by (simp add: out_def schema_def projectName_def)

lemma out_integration [simp]:
  "out (storageIntegration environment now) a = Attr ''data-pipeline-storage-integration'' a"
  by (simp add: out_def storageIntegration_def projectName_def)

lemma out_stage [simp]: "out (s3Stage environment now) a = Attr ''data-pipeline-s3-stage'' a"
  by (simp add: out_def s3Stage_def projectName_def)

lemma out_table [simp]: "out taxiTable a = Attr ''data-pipeline-taxi-table'' a"
  by (simp add: out_def taxiTable_def projectName_def)

lemma deps_dataBucket:
  "deps (dataBucket environment now) =
    []"
  by (simp add: deps_def resourceRefs_def dataBucket_def)

lemma deps_bucketPolicy:
  "deps (bucketPolicy environment now) =
    [''data-pipeline-bucket'', ''data-pipeline-bucket'']"
  by (simp add: deps_def resourceRefs_def bucketPolicy_def)

lemma deps_snowflakeRole:
  "deps (snowflakeRole environment) =
    []"
  by (simp add: deps_def resourceRefs_def snowflakeRole_def)

lemma deps_snowflakePolicy:
  "deps (snowflakePolicy environment now) =
    [''data-pipeline-snowflake-role'', ''data-pipeline-bucket'']"
  by (simp add: deps_def resourceRefs_def snowflakePolicy_def)

lemma deps_warehouse:
  "deps warehouse =
    []"
  by (simp add: deps_def resourceRefs_def warehouse_def)

lemma deps_database:
  "deps database =
    []"
  by (simp add: deps_def resourceRefs_def database_def)

lemma deps_schema:
  "deps schema =
    [''data-pipeline-database'']"
  by (simp add: deps_def resourceRefs_def schema_def)

lemma deps_storageIntegration:
  "deps (storageIntegration environment now) =
    [''data-pipeline-snowflake-role'', ''data-pipeline-bucket'']"
  by (simp add: deps_def resourceRefs_def storageIntegration_def)

lemma deps_csvFileFormat:
  "deps csvFileFormat =
    [''data-pipeline-database'', ''data-pipeline-schema'']"
  by (simp add: deps_def resourceRefs_def csvFileFormat_def)

lemma deps_parquetFileFormat:
  "deps parquetFileFormat =
    [''data-pipeline-database'', ''data-pipeline-schema'']"
  by (simp add: deps_def resourceRefs_def parquetFileFormat_def)

lemma deps_s3Stage:
  "deps (s3Stage environment now) =
    [''data-pipeline-database'', ''data-pipeline-schema'', ''data-pipeline-bucket'',
     ''data-pipeline-storage-integration'']"
  by (simp add: deps_def resourceRefs_def s3Stage_def)

lemma deps_taxiTable:
  "deps taxiTable =
    [''data-pipeline-database'', ''data-pipeline-schema'']"
  by (simp add: deps_def resourceRefs_def taxiTable_def)

lemmas deps_simps =
  deps_dataBucket deps_bucketPolicy deps_snowflakeRole deps_snowflakePolicy deps_warehouse deps_database
  deps_schema deps_storageIntegration deps_csvFileFormat deps_parquetFileFormat deps_s3Stage deps_taxiTable

lemma deps_program:
  "map deps (program environment now) =
     [[],
      [''data-pipeline-bucket'', ''data-pipeline-bucket''],
      [],
      [''data-pipeline-snowflake-role'', ''data-pipeline-bucket''],
      [],
      [],
      [''data-pipeline-database''],
      [''data-pipeline-snowflake-role'', ''data-pipeline-bucket''],
      [''data-pipeline-database'', ''data-pipeline-schema''],
      [''data-pipeline-database'', ''data-pipeline-schema''],
      [''data-pipeline-database'', ''data-pipeline-schema'', ''data-pipeline-bucket'',
       ''data-pipeline-storage-integration''],
      [''data-pipeline-database'', ''data-pipeline-schema'']]"
  by (simp add: program_def deps_simps)

lemma program_hd: "hd (program e t) = dataBucket e t"
  by (simp add: program_def)

lemma program_tl: "tl (program e t1) = tl (program e t2)"
  by (simp add: program_def bucketPolicy_def snowflakePolicy_def storageIntegration_def s3Stage_def)

lemma table_is_last:
  "filter (\<lambda>r. kind r = snowflake_Table) (program environment now) = [taxiTable]"
  using kinds[of environment now] by (simp add: program_def)

lemma snowflakeNames_program:
  "snowflakeNames (program e t) = map (\<lambda>n. Some (Lit n))
     [''DATA-PIPELINE_WH'', ''DATA-PIPELINE_DB'', ''RAW'', ''DATA-PIPELINE_S3_INT'',
      ''CSV_FORMAT'', ''PARQUET_FORMAT'', ''S3_STAGE'', ''TAXI_DATA'']"
  by (simp add: snowflakeNames_def program_def strArg_def arg_def dataBucket_def bucketPolicy_def
      snowflakeRole_def snowflakePolicy_def warehouse_def database_def schema_def
      storageIntegration_def csvFileFormat_def parquetFileFormat_def s3Stage_def taxiTable_def
      toUpperCase_projectName)

lemma bucket_name_eq_iff:
  "(strArg (dataBucket e t1) ''bucket'' = strArg (dataBucket e t2) ''bucket'') = (t1 = t2)"
  by (auto simp add: strArg_def arg_def dataBucket_def dest: numberToString_inj)

lemma statements_assumeRole:
  "statements assumeRolePolicyDocument =
     [JObj [(''Effect'', JStr ''Allow''),
            (''Principal'', JObj [(''AWS'', JStr ''*'')]),
            (''Action'', JStr ''sts:AssumeRole''),
            (''Condition'', JObj [
               (''StringEquals'', JObj [(''sts:ExternalId'', JStr ''snowflake_external_id'')])])]]"
  by (simp add: statements_def assumeRolePolicyDocument_def)

lemma statements_bucketPolicy:
  "statements (bucketPolicyDocument a) =
     [JObj [(''Sid'', JStr ''AllowSnowflakeAccess''),
            (''Effect'', JStr ''Allow''),
            (''Principal'', JStr ''*''),
            (''Action'', JArr [JStr ''s3:GetObject'', JStr ''s3:GetObjectVersion'',
                              JStr ''s3:ListBucket'']),
            (''Resource'', JArr [JStr a, JStr (a @ ''/*'')])]]"
  by (simp add: statements_def bucketPolicyDocument_def)

lemma trust_policy_text:
  "JSON_stringify assumeRolePolicyDocument =
     ''{'' @ CHR 0x22 # ''Version'' @ CHR 0x22 # '':'' @ CHR 0x22 # ''2012-10-17'' @
     CHR 0x22 # '','' @ CHR 0x22 # ''Statement'' @ CHR 0x22 # '':[{'' @ CHR 0x22 #
     ''Effect'' @ CHR 0x22 # '':'' @ CHR 0x22 # ''Allow'' @ CHR 0x22 # '','' @ CHR 0x22 #
     ''Principal'' @ CHR 0x22 # '':{'' @ CHR 0x22 # ''AWS'' @ CHR 0x22 # '':'' @ CHR 0x22 #
     ''*'' @ CHR 0x22 # ''},'' @ CHR 0x22 # ''Action'' @ CHR 0x22 # '':'' @ CHR 0x22 #
     ''sts:AssumeRole'' @ CHR 0x22 # '','' @ CHR 0x22 # ''Condition'' @ CHR 0x22 # '':{'' @
     CHR 0x22 # ''StringEquals'' @ CHR 0x22 # '':{'' @ CHR 0x22 # ''sts:ExternalId'' @
     CHR 0x22 # '':'' @ CHR 0x22 # ''snowflake_external_id'' @ CHR 0x22 # ''}}}]}''"
  by (simp add: assumeRolePolicyDocument_def quoteJSONString_def quoteChar_def)

lemma bucket_policy_text:
  "JSON_stringify (bucketPolicyDocument a) =
     ''{'' @ CHR 0x22 # ''Version'' @ CHR 0x22 # '':'' @ CHR 0x22 # ''2012-10-17'' @
     CHR 0x22 # '','' @ CHR 0x22 # ''Statement'' @ CHR 0x22 # '':[{'' @ CHR 0x22 # ''Sid'' @
     CHR 0x22 # '':'' @ CHR 0x22 # ''AllowSnowflakeAccess'' @ CHR 0x22 # '','' @ CHR 0x22 #
     ''Effect'' @ CHR 0x22 # '':'' @ CHR 0x22 # ''Allow'' @ CHR 0x22 # '','' @ CHR 0x22 #
     ''Principal'' @ CHR 0x22 # '':'' @ CHR 0x22 # ''*'' @ CHR 0x22 # '','' @ CHR 0x22 #
     ''Action'' @ CHR 0x22 # '':['' @ CHR 0x22 # ''s3:GetObject'' @ CHR 0x22 # '','' @
     CHR 0x22 # ''s3:GetObjectVersion'' @ CHR 0x22 # '','' @ CHR 0x22 # ''s3:ListBucket'' @
     CHR 0x22 # ''],'' @ CHR 0x22 # ''Resource'' @ CHR 0x22 # '':['' @ CHR 0x22 #
     concat (map quoteChar a) @ CHR 0x22 # '','' @ CHR 0x22 # concat (map quoteChar a) @
     ''/*'' @ CHR 0x22 # '']}]}''"
  by (simp add: bucketPolicyDocument_def quoteJSONString_def quoteChar_def)

lemma quoted_example_arn:
  "concat (map quoteChar ''arn:aws:s3:::data-pipeline-data-dev-1700000000000'')
     = ''arn:aws:s3:::data-pipeline-data-dev-1700000000000''"
  by (simp add: quoteChar_def)

lemma instructions_text:
  "resolve \<sigma> (instructions environment now) =
     CHR 0x0A #
     ''================================================================================'' @
     CHR 0x0A # ''DEPLOYMENT COMPLETE! Next steps:'' @ CHR 0x0A #
     ''================================================================================'' @
     CHR 0x0A # CHR 0x0A # ''1. Upload sample data to S3:'' @ CHR 0x0A #
     ''   aws s3 cp data/sample.csv s3://'' @ \<sigma> ''data-pipeline-bucket'' ''bucket'' @
     ''/raw/'' @ CHR 0x0A # CHR 0x0A # ''2. Or download NYC Taxi data (1M+ rows):'' @
     CHR 0x0A #
     ''   wget https://d37ci6vzurychx.cloudfront.net/trip-data/yellow_tripdata_2024-01.parquet'' @
     CHR 0x0A # ''   aws s3 cp yellow_tripdata_2024-01.parquet s3://'' @
     \<sigma> ''data-pipeline-bucket'' ''bucket'' @ ''/raw/'' @ CHR 0x0A # CHR 0x0A #
     ''3. Run COPY INTO in Snowflake to load data:'' @ CHR 0x0A # ''   USE WAREHOUSE '' @
     \<sigma> ''data-pipeline-warehouse'' ''name'' @ '';'' @ CHR 0x0A #
     ''   USE DATABASE '' @ \<sigma> ''data-pipeline-database'' ''name'' @ '';'' @
     CHR 0x0A # ''   USE SCHEMA '' @ \<sigma> ''data-pipeline-schema'' ''name'' @ '';'' @
     CHR 0x0A # CHR 0x0A # ''   COPY INTO TAXI_DATA'' @ CHR 0x0A # ''   FROM @S3_STAGE'' @
     CHR 0x0A # ''   FILE_FORMAT = PARQUET_FORMAT'' @ CHR 0x0A #
     ''   MATCH_BY_COLUMN_NAME = CASE_INSENSITIVE;'' @ CHR 0x0A # CHR 0x0A #
     ''4. Verify data loaded:'' @ CHR 0x0A # ''   SELECT COUNT(*) FROM TAXI_DATA;'' @
     CHR 0x0A # ''   -- Should show 1M+ rows loaded in <30 seconds!'' @ CHR 0x0A #
     CHR 0x0A #
     ''================================================================================'' @
     [CHR 0x0A]"
  by (simp add: instructions_def nl_def)

lemma instructions_refs:
  "refs (instructions environment now) =
     [(''data-pipeline-bucket'', ''bucket''), (''data-pipeline-bucket'', ''bucket''),
      (''data-pipeline-warehouse'', ''name''), (''data-pipeline-database'', ''name''),
      (''data-pipeline-schema'', ''name'')]"
  by (simp add: instructions_def)

lemma bucket_name_env_iff:
  "(strArg (dataBucket e1 t) ''bucket'' = strArg (dataBucket e2 t) ''bucket'') = (e1 = e2)"
  by (auto simp add: strArg_def arg_def dataBucket_def)

lemma numberToString_example2: "numberToString 1700000000001 = ''1700000000001''"
  by (simp add: numberToString_def digits.simps digitChar_def char_of_def bit_0)

subsection \<open>Declaration order excludes cycles\<close>

lemma program_declaredBefore: "declaredBefore [] (program environment now)"
  by (simp add: program_def deps_simps logicalName_simps)

lemma program_distinct: "distinct (map logicalName (program environment now))"
  by (simp add: names)

lemma rank_seen:
  assumes "b \<in> set xs"
  shows "length (takeWhile (\<lambda>m. m \<noteq> b) (xs @ ys)) < length xs"
proof -
  have "takeWhile (\<lambda>m. m \<noteq> b) (xs @ ys) = takeWhile (\<lambda>m. m \<noteq> b) xs"
    using assms by simp
  moreover have "takeWhile (\<lambda>m. m \<noteq> b) xs \<noteq> xs"
    using assms by auto
  then have "length (takeWhile (\<lambda>m. m \<noteq> b) xs) \<noteq> length xs"
    by (metis takeWhile_eq_take take_all_iff le_refl)
  moreover have "length (takeWhile (\<lambda>m. m \<noteq> b) xs) \<le> length xs"
    by (rule length_takeWhile_le)
  ultimately show ?thesis by simp
qed

lemma rank_fresh:
  assumes "a \<notin> set xs"
  shows "length (takeWhile (\<lambda>m. m \<noteq> a) (xs @ a # ys)) = length xs"
proof -
  have "takeWhile (\<lambda>m. m \<noteq> a) (xs @ a # ys) = xs @ takeWhile (\<lambda>m. m \<noteq> a) (a # ys)"
    by (rule takeWhile_append2) (use assms in auto)
  then show ?thesis by simp
qed

lemma edges_Cons:
  "dependencyEdges (r # rs) = (\<lambda>d. (logicalName r, d)) ` set (deps r) \<union> dependencyEdges rs"
  by (simp add: dependencyEdges_def)

lemma edges_descend:
  assumes "declaredBefore seen rs" and "distinct (seen @ map logicalName rs)"
    and "(a, b) \<in> dependencyEdges rs"
  shows "length (takeWhile (\<lambda>m. m \<noteq> b) (seen @ map logicalName rs))
       < length (takeWhile (\<lambda>m. m \<noteq> a) (seen @ map logicalName rs))"
  using assms
proof (induction rs arbitrary: seen)
  case Nil
  then show ?case by (simp add: dependencyEdges_def)
next
  case (Cons r rs)
  from Cons.prems(3) consider
    (here) "a = logicalName r" "b \<in> set (deps r)" | (later) "(a, b) \<in> dependencyEdges rs"
    by (auto simp add: edges_Cons)
  then show ?case
  proof cases
    case here
    from Cons.prems(1) here(2) have "b \<in> set seen"
      by (auto simp add: list_all_iff)
    then have "length (takeWhile (\<lambda>m. m \<noteq> b) (seen @ map logicalName (r # rs))) < length seen"
      by (rule rank_seen)
    moreover from Cons.prems(2) here(1) have "a \<notin> set seen" by auto
    then have "length (takeWhile (\<lambda>m. m \<noteq> a) (seen @ a # map logicalName rs)) = length seen"
      by (rule rank_fresh)
    ultimately show ?thesis using here(1) by simp
  next
    case later
    have "declaredBefore (seen @ [logicalName r]) rs"
      using Cons.prems(1) by simp
    moreover have "distinct ((seen @ [logicalName r]) @ map logicalName rs)"
      using Cons.prems(2) by simp
    ultimately show ?thesis
      using Cons.IH[of "seen @ [logicalName r]"] later by simp
  qed
qed

lemma declaredBefore_acyclic:
  assumes "declaredBefore [] rs" and "distinct (map logicalName rs)"
  shows "acyclic (dependencyEdges rs)"
proof (rule acyclicI_order)
  fix a b
  assume "(a, b) \<in> dependencyEdges rs"
  with assms show "length (takeWhile (\<lambda>m. m \<noteq> b) (map logicalName rs))
       < length (takeWhile (\<lambda>m. m \<noteq> a) (map logicalName rs))"
    using edges_descend[of "[]" rs a b] by simp
qed

subsection \<open>Re-evaluation and the clock\<close>

text \<open>
  Two runs on the stack \<open>dev\<close> one millisecond apart ask for two different bucket names, so
  their descriptor sets differ.
\<close>

theorem reevaluation_counterexample:
  "strArg (dataBucket ''dev'' 1700000000000) ''bucket''
     \<noteq> strArg (dataBucket ''dev'' 1700000000001) ''bucket''
   \<and> program ''dev'' 1700000000000 \<noteq> program ''dev'' 1700000000001"
proof -
  have names: "strArg (dataBucket ''dev'' 1700000000000) ''bucket''
      \<noteq> strArg (dataBucket ''dev'' 1700000000001) ''bucket''"
    by (simp add: bucket_name_eq_iff)
  moreover have "program ''dev'' 1700000000000 \<noteq> program ''dev'' 1700000000001"
  proof
    assume "program ''dev'' 1700000000000 = program ''dev'' 1700000000001"
    then have "hd (program ''dev'' 1700000000000) = hd (program ''dev'' 1700000000001)"
      by simp
    then have "dataBucket ''dev'' 1700000000000 = dataBucket ''dev'' 1700000000001"
      by (simp only: program_hd)
    with names show False by simp
  qed
  ultimately show ?thesis by simp
qed

text \<open>
  C1, as the program has it. For a fixed environment two evaluations produce the same
  descriptors exactly when they read the same clock value. Whatever the clock readings,
  the eleven descriptors after the bucket are identical, and the two bucket descriptors
  agree in class, logical name and every argument other than the \<open>bucket\<close> name.
\<close>

theorem reevaluation_differs_only_in_bucket_name:
  "(program e t1 = program e t2) = (t1 = t2)
   \<and> (strArg (dataBucket e t1) ''bucket'' = strArg (dataBucket e t2) ''bucket'') = (t1 = t2)
   \<and> tl (program e t1) = tl (program e t2)
   \<and> kind (dataBucket e t1) = kind (dataBucket e t2)
   \<and> logicalName (dataBucket e t1) = logicalName (dataBucket e t2)
   \<and> filter (\<lambda>kv. fst kv \<noteq> ''bucket'') (args (dataBucket e t1))
     = filter (\<lambda>kv. fst kv \<noteq> ''bucket'') (args (dataBucket e t2))"
proof -
  have "t1 = t2" if "program e t1 = program e t2"
  proof -
    from that have "hd (program e t1) = hd (program e t2)" by simp
    then have "dataBucket e t1 = dataBucket e t2" by (simp only: program_hd)
    then have "strArg (dataBucket e t1) ''bucket'' = strArg (dataBucket e t2) ''bucket''"
      by simp
    then show ?thesis by (simp only: bucket_name_eq_iff)
  qed
  then have "(program e t1 = program e t2) = (t1 = t2)" by auto
  moreover have "filter (\<lambda>kv. fst kv \<noteq> ''bucket'') (args (dataBucket e t1))
     = filter (\<lambda>kv. fst kv \<noteq> ''bucket'') (args (dataBucket e t2))"
    by (simp add: dataBucket_def)
  moreover have "kind (dataBucket e t1) = kind (dataBucket e t2)"
    "logicalName (dataBucket e t1) = logicalName (dataBucket e t2)"
    by (simp_all add: dataBucket_def)
  ultimately show ?thesis
    using bucket_name_eq_iff[of e t1 t2] program_tl[of e t1 t2] by simp
qed

subsection \<open>Names across environments\<close>

text \<open>
  The stacks \<open>dev\<close> and \<open>prod\<close> ask for the same eight Snowflake object names.
\<close>

theorem snowflake_names_collide_counterexample:
  "''dev'' \<noteq> ''prod''
   \<and> snowflakeNames (program ''dev'' 1700000000000) = map (\<lambda>n. Some (Lit n))
     [''DATA-PIPELINE_WH'', ''DATA-PIPELINE_DB'', ''RAW'', ''DATA-PIPELINE_S3_INT'',
      ''CSV_FORMAT'', ''PARQUET_FORMAT'', ''S3_STAGE'', ''TAXI_DATA'']
   \<and> snowflakeNames (program ''prod'' 1700000000000) = map (\<lambda>n. Some (Lit n))
     [''DATA-PIPELINE_WH'', ''DATA-PIPELINE_DB'', ''RAW'', ''DATA-PIPELINE_S3_INT'',
      ''CSV_FORMAT'', ''PARQUET_FORMAT'', ''S3_STAGE'', ''TAXI_DATA'']"
  by (simp add: snowflakeNames_program)

text \<open>
  The bound on the clock in the next theorem is needed: before the epoch the rendering
  starts with a minus sign, which reads like the separator after the environment.
\<close>

lemma bucket_names_before_epoch:
  "strArg (dataBucket ''a-'' 5) ''bucket'' = strArg (dataBucket ''a'' (- 5)) ''bucket''"
  by (simp add: strArg_def arg_def dataBucket_def numberToString_def digits.simps)

text \<open>
  C2, as the program has it. Two distinct environments get distinct bucket names, for any
  clock readings at or after the epoch; the names of the Snowflake objects do not mention
  the environment and are the same in both.
\<close>

theorem environments_separate_buckets_only:
  assumes "e1 \<noteq> e2" and "0 \<le> t1" and "0 \<le> t2"
  shows "strArg (dataBucket e1 t1) ''bucket'' \<noteq> strArg (dataBucket e2 t2) ''bucket''
    \<and> snowflakeNames (program e1 t1) = snowflakeNames (program e2 t2)"
proof -
  have "strArg (dataBucket e1 t1) ''bucket'' \<noteq> strArg (dataBucket e2 t2) ''bucket''"
  proof
    assume "strArg (dataBucket e1 t1) ''bucket'' = strArg (dataBucket e2 t2) ''bucket''"
    then have "(projectName @ ''-data-'') @ e1 @ ''-'' @ numberToString t1
        = (projectName @ ''-data-'') @ e2 @ ''-'' @ numberToString t2"
      by (simp add: strArg_def arg_def dataBucket_def)
    with assms(2,3) have "e1 = e2"
      by (rule bucket_name_inj)
    with assms(1) show False by simp
  qed
  then show ?thesis
    by (simp add: snowflakeNames_program)
qed

text \<open>The stacks \<open>dev\<close> and \<open>prod\<close>, evaluated one millisecond apart.\<close>

theorem environments_separate_buckets_only_witness:
  "''dev'' \<noteq> ''prod'' \<and> (0::int) \<le> 1700000000000 \<and> (0::int) \<le> 1700000000001
   \<and> strArg (dataBucket ''dev'' 1700000000000) ''bucket''
     \<noteq> strArg (dataBucket ''prod'' 1700000000001) ''bucket''
   \<and> snowflakeNames (program ''dev'' 1700000000000)
     = snowflakeNames (program ''prod'' 1700000000001)"
  using environments_separate_buckets_only[of "''dev''" "''prod''" 1700000000000 1700000000001]
  by simp

subsection \<open>The declared resources\<close>

text \<open>The program on the stack \<open>dev\<close> does not declare eleven resources.\<close>

theorem eleven_resources_counterexample:
  "length (program ''dev'' 1700000000000) \<noteq> 11"
  by (simp add: program_def)

text \<open>
  C3, as the program has it. The program declares twelve resources, four on AWS and eight
  on Snowflake, under pairwise distinct logical names; exactly one of them is a bucket,
  and its \<open>forceDestroy\<close> flag is \<open>true\<close>.
\<close>

theorem twelve_resources_and_force_destroy:
  "length (program environment now) = 12
   \<and> map kind (program environment now) =
     [aws_s3_Bucket, aws_s3_BucketPolicy, aws_iam_Role, aws_iam_RolePolicy,
      snowflake_Warehouse, snowflake_Database, snowflake_Schema, snowflake_StorageIntegration,
      snowflake_FileFormat, snowflake_FileFormat, snowflake_Stage, snowflake_Table]
   \<and> distinct (map logicalName (program environment now))
   \<and> filter (\<lambda>r. kind r = aws_s3_Bucket) (program environment now) = [dataBucket environment now]
   \<and> arg (dataBucket environment now) ''forceDestroy'' = Some (PBool True)"
proof -
  have "filter (\<lambda>r. kind r = aws_s3_Bucket) (program environment now) = [dataBucket environment now]"
    using kinds[of environment now] by (simp add: program_def)
  moreover have "arg (dataBucket environment now) ''forceDestroy'' = Some (PBool True)"
    by (simp add: arg_def dataBucket_def)
  moreover have "length (program environment now) = 12"
    by (simp add: program_def)
  ultimately show ?thesis
    using kinds[of environment now] program_distinct[of environment now] by simp
qed

subsection \<open>Attribute bindings and the dependency graph\<close>

text \<open>
  C4. The storage integration's \<open>storageAwsRoleArn\<close> is the \<open>arn\<close> output of the role, and
  the stage's \<open>url\<close> is \<open>s3://\<close>, the \<open>bucket\<close> output of the bucket and \<open>/raw/\<close>. Whatever
  identifiers the provider assigns, these are the values the two arguments resolve to. The
  storage integration's allowed location is bound to the bucket's name in the same way, and
  both referenced resources are declared by the program.
\<close>

theorem cross_cloud_references_are_bindings:
  "strArg (storageIntegration environment now) ''storageAwsRoleArn''
     = Some (Attr (logicalName (snowflakeRole environment)) ''arn'')
   \<and> strArg (s3Stage environment now) ''url''
     = Some (Interpolate [Lit ''s3://'', Attr (logicalName (dataBucket environment now)) ''bucket'',
         Lit ''/raw/''])
   \<and> map_option (resolve \<sigma>) (strArg (storageIntegration environment now) ''storageAwsRoleArn'')
     = Some (\<sigma> (logicalName (snowflakeRole environment)) ''arn'')
   \<and> map_option (resolve \<sigma>) (strArg (s3Stage environment now) ''url'')
     = Some (''s3://'' @ \<sigma> (logicalName (dataBucket environment now)) ''bucket'' @ ''/raw/'')
   \<and> map_option refs (strArg (storageIntegration environment now) ''storageAwsRoleArn'')
     = Some [(logicalName (snowflakeRole environment), ''arn'')]
   \<and> map_option refs (strArg (s3Stage environment now) ''url'')
     = Some [(logicalName (dataBucket environment now), ''bucket'')]
   \<and> arg (storageIntegration environment now) ''storageAllowedLocations''
     = Some (PList [PStr (Interpolate
         [Lit ''s3://'', Attr (logicalName (dataBucket environment now)) ''bucket'', Lit ''/''])])
   \<and> kind (snowflakeRole environment) = aws_iam_Role
   \<and> kind (dataBucket environment now) = aws_s3_Bucket
   \<and> snowflakeRole environment \<in> set (program environment now)
   \<and> dataBucket environment now \<in> set (program environment now)"
proof -
  have "strArg (storageIntegration environment now) ''storageAwsRoleArn''
     = Some (Attr (logicalName (snowflakeRole environment)) ''arn'')"
    by (simp add: strArg_def arg_def storageIntegration_def logicalName_simps)
  moreover have "strArg (s3Stage environment now) ''url''
     = Some (Interpolate [Lit ''s3://'', Attr (logicalName (dataBucket environment now)) ''bucket'',
         Lit ''/raw/''])"
    by (simp add: strArg_def arg_def s3Stage_def logicalName_simps)
  moreover have "arg (storageIntegration environment now) ''storageAllowedLocations''
     = Some (PList [PStr (Interpolate
         [Lit ''s3://'', Attr (logicalName (dataBucket environment now)) ''bucket'', Lit ''/''])])"
    by (simp add: arg_def storageIntegration_def logicalName_simps)
  moreover have "kind (snowflakeRole environment) = aws_iam_Role"
    by (simp add: snowflakeRole_def)
  moreover have "kind (dataBucket environment now) = aws_s3_Bucket"
    by (simp add: dataBucket_def)
  moreover have "snowflakeRole environment \<in> set (program environment now)"
    "dataBucket environment now \<in> set (program environment now)"
    by (simp_all add: program_def)
  ultimately show ?thesis by simp
qed

text \<open>
  C5. Every descriptor reads only outputs of resources declared before it, so the
  dependency graph is acyclic. The role reads no output at all: the dependence of its trust
  policy on the storage integration's identity is not an edge of the graph.
\<close>

theorem dependency_graph_acyclic:
  "declaredBefore [] (program environment now)
   \<and> distinct (map logicalName (program environment now))
   \<and> acyclic (dependencyEdges (program environment now))
   \<and> map deps (program environment now) =
     [[],
      [''data-pipeline-bucket'', ''data-pipeline-bucket''],
      [],
      [''data-pipeline-snowflake-role'', ''data-pipeline-bucket''],
      [],
      [],
      [''data-pipeline-database''],
      [''data-pipeline-snowflake-role'', ''data-pipeline-bucket''],
      [''data-pipeline-database'', ''data-pipeline-schema''],
      [''data-pipeline-database'', ''data-pipeline-schema''],
      [''data-pipeline-database'', ''data-pipeline-schema'', ''data-pipeline-bucket'',
       ''data-pipeline-storage-integration''],
      [''data-pipeline-database'', ''data-pipeline-schema'']]
   \<and> resourceRefs (snowflakeRole environment) = []
   \<and> logicalName (storageIntegration environment now) \<notin> set (deps (snowflakeRole environment))"
proof -
  have "acyclic (dependencyEdges (program environment now))"
    using program_declaredBefore program_distinct by (rule declaredBefore_acyclic)
  moreover have "resourceRefs (snowflakeRole environment) = []"
    by (simp add: resourceRefs_def snowflakeRole_def)
  ultimately show ?thesis
    using program_declaredBefore[of environment now] program_distinct[of environment now]
      deps_program[of environment now]
    by (simp add: deps_snowflakeRole)
qed

text \<open>
  C6. The role's \<open>assumeRolePolicy\<close> is a fixed text, written out below: the serialisation
  of a document whose single statement has the principal \<open>AWS: *\<close> and the condition
  \<open>sts:ExternalId = snowflake_external_id\<close>. It reads no output of any resource and
  resolves to this text whatever the engine returns.
\<close>

theorem role_trust_policy_is_placeholder:
  "strArg (snowflakeRole environment) ''assumeRolePolicy''
     = Some (Lit (JSON_stringify assumeRolePolicyDocument))
   \<and> JSON_stringify assumeRolePolicyDocument =
     ''{'' @ CHR 0x22 # ''Version'' @ CHR 0x22 # '':'' @ CHR 0x22 # ''2012-10-17'' @
     CHR 0x22 # '','' @ CHR 0x22 # ''Statement'' @ CHR 0x22 # '':[{'' @ CHR 0x22 #
     ''Effect'' @ CHR 0x22 # '':'' @ CHR 0x22 # ''Allow'' @ CHR 0x22 # '','' @ CHR 0x22 #
     ''Principal'' @ CHR 0x22 # '':{'' @ CHR 0x22 # ''AWS'' @ CHR 0x22 # '':'' @ CHR 0x22 #
     ''*'' @ CHR 0x22 # ''},'' @ CHR 0x22 # ''Action'' @ CHR 0x22 # '':'' @ CHR 0x22 #
     ''sts:AssumeRole'' @ CHR 0x22 # '','' @ CHR 0x22 # ''Condition'' @ CHR 0x22 # '':{'' @
     CHR 0x22 # ''StringEquals'' @ CHR 0x22 # '':{'' @ CHR 0x22 # ''sts:ExternalId'' @
     CHR 0x22 # '':'' @ CHR 0x22 # ''snowflake_external_id'' @ CHR 0x22 # ''}}}]}''
   \<and> map_option (resolve \<sigma>) (strArg (snowflakeRole environment) ''assumeRolePolicy'')
     = Some (
         ''{'' @ CHR 0x22 # ''Version'' @ CHR 0x22 # '':'' @ CHR 0x22 # ''2012-10-17'' @
         CHR 0x22 # '','' @ CHR 0x22 # ''Statement'' @ CHR 0x22 # '':[{'' @ CHR 0x22 #
         ''Effect'' @ CHR 0x22 # '':'' @ CHR 0x22 # ''Allow'' @ CHR 0x22 # '','' @
         CHR 0x22 # ''Principal'' @ CHR 0x22 # '':{'' @ CHR 0x22 # ''AWS'' @ CHR 0x22 #
         '':'' @ CHR 0x22 # ''*'' @ CHR 0x22 # ''},'' @ CHR 0x22 # ''Action'' @ CHR 0x22 #
         '':'' @ CHR 0x22 # ''sts:AssumeRole'' @ CHR 0x22 # '','' @ CHR 0x22 #
         ''Condition'' @ CHR 0x22 # '':{'' @ CHR 0x22 # ''StringEquals'' @ CHR 0x22 #
         '':{'' @ CHR 0x22 # ''sts:ExternalId'' @ CHR 0x22 # '':'' @ CHR 0x22 #
         ''snowflake_external_id'' @ CHR 0x22 # ''}}}]}'')
   \<and> length (statements assumeRolePolicyDocument) = 1
   \<and> map (\<lambda>s. path s [''Principal'', ''AWS'']) (statements assumeRolePolicyDocument)
     = [Some (JStr ''*'')]
   \<and> map (\<lambda>s. path s [''Condition'', ''StringEquals'', ''sts:ExternalId''])
       (statements assumeRolePolicyDocument)
     = [Some (JStr ''snowflake_external_id'')]
   \<and> map_option refs (strArg (snowflakeRole environment) ''assumeRolePolicy'') = Some []
   \<and> resourceRefs (snowflakeRole environment) = []
   \<and> map_option (resolve \<sigma>) (strArg (snowflakeRole environment) ''assumeRolePolicy'')
     = map_option (resolve \<sigma>') (strArg (snowflakeRole environment) ''assumeRolePolicy'')"
proof -
  have "strArg (snowflakeRole environment) ''assumeRolePolicy''
     = Some (Lit (JSON_stringify assumeRolePolicyDocument))"
    by (simp add: strArg_def arg_def snowflakeRole_def)
  moreover have "resourceRefs (snowflakeRole environment) = []"
    by (simp add: resourceRefs_def snowflakeRole_def)
  ultimately show ?thesis
    by (simp add: statements_assumeRole trust_policy_text)
qed

subsection \<open>Exports\<close>

text \<open>
  The exports of the stack \<open>dev\<close> are not a flat mapping with the ten identifier keys.
\<close>

theorem exports_not_flat_counterexample:
  "\<not> (isFlat (exports ''dev'' 1700000000000)
      \<and> map fst (exports ''dev'' 1700000000000) =
        [''bucketName'', ''bucketArn'', ''roleArn'', ''roleName'', ''warehouseName'',
         ''databaseName'', ''schemaName'', ''stageName'', ''tableName'',
         ''storageIntegrationName''])"
  by (simp add: isFlat_def exports_def)

text \<open>
  C7, as the program has it. The module exports three names. \<open>awsOutputs\<close> is an object
  with the fields \<open>bucketName\<close>, \<open>bucketArn\<close>, \<open>roleArn\<close> and \<open>roleName\<close>;
  \<open>snowflakeOutputs\<close> is an object with the fields \<open>warehouseName\<close>, \<open>databaseName\<close>,
  \<open>schemaName\<close>, \<open>stageName\<close>, \<open>tableName\<close> and \<open>storageIntegrationName\<close>; each field is
  bound to an output of the resource it names, and together they are exactly the ten
  identifiers. \<open>instructions\<close> is a text: the follow-up commands written out below, with the
  provisioned bucket, warehouse, database and schema names filled in.
\<close>

theorem exported_surface:
  "map fst (exports environment now) = [''awsOutputs'', ''snowflakeOutputs'', ''instructions'']
   \<and> map (\<lambda>kv. isValue (snd kv)) (exports environment now) = [False, False, True]
   \<and> map_of (exports environment now) ''awsOutputs'' = Some (ExportObject
     [(''bucketName'', Attr (logicalName (dataBucket environment now)) ''bucket''),
      (''bucketArn'', Attr (logicalName (dataBucket environment now)) ''arn''),
      (''roleArn'', Attr (logicalName (snowflakeRole environment)) ''arn''),
      (''roleName'', Attr (logicalName (snowflakeRole environment)) ''name'')])
   \<and> map_of (exports environment now) ''snowflakeOutputs'' = Some (ExportObject
     [(''warehouseName'', Attr (logicalName warehouse) ''name''),
      (''databaseName'', Attr (logicalName database) ''name''),
      (''schemaName'', Attr (logicalName schema) ''name''),
      (''stageName'', Attr (logicalName (s3Stage environment now)) ''name''),
      (''tableName'', Attr (logicalName taxiTable) ''name''),
      (''storageIntegrationName'', Attr (logicalName (storageIntegration environment now)) ''name'')])
   \<and> exportedIdentifiers (exports environment now) =
     [(''bucketName'', Attr (logicalName (dataBucket environment now)) ''bucket''),
      (''bucketArn'', Attr (logicalName (dataBucket environment now)) ''arn''),
      (''roleArn'', Attr (logicalName (snowflakeRole environment)) ''arn''),
      (''roleName'', Attr (logicalName (snowflakeRole environment)) ''name''),
      (''warehouseName'', Attr (logicalName warehouse) ''name''),
      (''databaseName'', Attr (logicalName database) ''name''),
      (''schemaName'', Attr (logicalName schema) ''name''),
      (''stageName'', Attr (logicalName (s3Stage environment now)) ''name''),
      (''tableName'', Attr (logicalName taxiTable) ''name''),
      (''storageIntegrationName'', Attr (logicalName (storageIntegration environment now)) ''name'')]
   \<and> map_of (exports environment now) ''instructions''
     = Some (ExportValue (instructions environment now))
   \<and> refs (instructions environment now) =
     [(logicalName (dataBucket environment now), ''bucket''),
      (logicalName (dataBucket environment now), ''bucket''),
      (logicalName warehouse, ''name''), (logicalName database, ''name''),
      (logicalName schema, ''name'')]
   \<and> resolve \<sigma> (instructions environment now) =
     CHR 0x0A #
     ''================================================================================'' @
     CHR 0x0A # ''DEPLOYMENT COMPLETE! Next steps:'' @ CHR 0x0A #
     ''================================================================================'' @
     CHR 0x0A # CHR 0x0A # ''1. Upload sample data to S3:'' @ CHR 0x0A #
     ''   aws s3 cp data/sample.csv s3://'' @ \<sigma> ''data-pipeline-bucket'' ''bucket'' @
     ''/raw/'' @ CHR 0x0A # CHR 0x0A # ''2. Or download NYC Taxi data (1M+ rows):'' @
     CHR 0x0A #
     ''   wget https://d37ci6vzurychx.cloudfront.net/trip-data/yellow_tripdata_2024-01.parquet'' @
     CHR 0x0A # ''   aws s3 cp yellow_tripdata_2024-01.parquet s3://'' @
     \<sigma> ''data-pipeline-bucket'' ''bucket'' @ ''/raw/'' @ CHR 0x0A # CHR 0x0A #
     ''3. Run COPY INTO in Snowflake to load data:'' @ CHR 0x0A # ''   USE WAREHOUSE '' @
     \<sigma> ''data-pipeline-warehouse'' ''name'' @ '';'' @ CHR 0x0A #
     ''   USE DATABASE '' @ \<sigma> ''data-pipeline-database'' ''name'' @ '';'' @
     CHR 0x0A # ''   USE SCHEMA '' @ \<sigma> ''data-pipeline-schema'' ''name'' @ '';'' @
     CHR 0x0A # CHR 0x0A # ''   COPY INTO TAXI_DATA'' @ CHR 0x0A # ''   FROM @S3_STAGE'' @
     CHR 0x0A # ''   FILE_FORMAT = PARQUET_FORMAT'' @ CHR 0x0A #
     ''   MATCH_BY_COLUMN_NAME = CASE_INSENSITIVE;'' @ CHR 0x0A # CHR 0x0A #
     ''4. Verify data loaded:'' @ CHR 0x0A # ''   SELECT COUNT(*) FROM TAXI_DATA;'' @
     CHR 0x0A # ''   -- Should show 1M+ rows loaded in <30 seconds!'' @ CHR 0x0A #
     CHR 0x0A #
     ''================================================================================'' @
     [CHR 0x0A]"
proof -
  have "map_of (exports environment now) ''awsOutputs'' = Some (ExportObject
     [(''bucketName'', Attr (logicalName (dataBucket environment now)) ''bucket''),
      (''bucketArn'', Attr (logicalName (dataBucket environment now)) ''arn''),
      (''roleArn'', Attr (logicalName (snowflakeRole environment)) ''arn''),
      (''roleName'', Attr (logicalName (snowflakeRole environment)) ''name'')])"
    by (simp add: exports_def awsOutputs_def logicalName_simps)
  moreover have "map_of (exports environment now) ''snowflakeOutputs'' = Some (ExportObject
     [(''warehouseName'', Attr (logicalName warehouse) ''name''),
      (''databaseName'', Attr (logicalName database) ''name''),
      (''schemaName'', Attr (logicalName schema) ''name''),
      (''stageName'', Attr (logicalName (s3Stage environment now)) ''name''),
      (''tableName'', Attr (logicalName taxiTable) ''name''),
      (''storageIntegrationName'', Attr (logicalName (storageIntegration environment now)) ''name'')])"
    by (simp add: exports_def snowflakeOutputs_def logicalName_simps)
  moreover have "exportedIdentifiers (exports environment now) =
     [(''bucketName'', Attr (logicalName (dataBucket environment now)) ''bucket''),
      (''bucketArn'', Attr (logicalName (dataBucket environment now)) ''arn''),
      (''roleArn'', Attr (logicalName (snowflakeRole environment)) ''arn''),
      (''roleName'', Attr (logicalName (snowflakeRole environment)) ''name''),
      (''warehouseName'', Attr (logicalName warehouse) ''name''),
      (''databaseName'', Attr (logicalName database) ''name''),
      (''schemaName'', Attr (logicalName schema) ''name''),
      (''stageName'', Attr (logicalName (s3Stage environment now)) ''name''),
      (''tableName'', Attr (logicalName taxiTable) ''name''),
      (''storageIntegrationName'', Attr (logicalName (storageIntegration environment now)) ''name'')]"
    by (simp add: exports_def exportedIdentifiers_def awsOutputs_def snowflakeOutputs_def
        logicalName_simps)
  moreover have "map fst (exports environment now)
      = [''awsOutputs'', ''snowflakeOutputs'', ''instructions'']"
    "map (\<lambda>kv. isValue (snd kv)) (exports environment now) = [False, False, True]"
    "map_of (exports environment now) ''instructions''
      = Some (ExportValue (instructions environment now))"
    by (simp_all add: exports_def)
  moreover have "refs (instructions environment now) =
     [(logicalName (dataBucket environment now), ''bucket''),
      (logicalName (dataBucket environment now), ''bucket''),
      (logicalName warehouse, ''name''), (logicalName database, ''name''),
      (logicalName schema, ''name'')]"
    by (simp add: instructions_refs logicalName_simps)
  ultimately show ?thesis
    using instructions_text[of \<sigma> environment now] by simp
qed

subsection \<open>Bucket and table descriptors\<close>

text \<open>
  C8. The bucket's name is the project name, \<open>-data-\<close>, the environment, a hyphen and the
  clock reading in decimal, and its \<open>forceDestroy\<close> flag is \<open>true\<close>. The name depends on
  both inputs: for a fixed environment two names agree only at the same clock reading, and
  at a fixed clock reading only for the same environment. For the stack \<open>dev\<close> at clock
  reading 1700000000000 the name is \<open>data-pipeline-data-dev-1700000000000\<close>, for \<open>prod\<close> one
  millisecond later \<open>data-pipeline-data-prod-1700000000001\<close>.
\<close>

theorem bucket_name_and_force_delete:
  "strArg (dataBucket environment now) ''bucket'' =
     Some (Lit (projectName @ ''-data-'' @ environment @ ''-'' @ numberToString now))
   \<and> arg (dataBucket environment now) ''forceDestroy'' = Some (PBool True)
   \<and> strArg (dataBucket ''dev'' 1700000000000) ''bucket'' =
     Some (Lit ''data-pipeline-data-dev-1700000000000'')
   \<and> strArg (dataBucket ''prod'' 1700000000001) ''bucket'' =
     Some (Lit ''data-pipeline-data-prod-1700000000001'')
   \<and> (strArg (dataBucket environment t1) ''bucket'' = strArg (dataBucket environment t2) ''bucket'')
     = (t1 = t2)
   \<and> (strArg (dataBucket e1 now) ''bucket'' = strArg (dataBucket e2 now) ''bucket'') = (e1 = e2)
   \<and> projectName = ''data-pipeline''"
proof -
  have "strArg (dataBucket environment now) ''bucket'' =
     Some (Lit (projectName @ ''-data-'' @ environment @ ''-'' @ numberToString now))"
    "arg (dataBucket environment now) ''forceDestroy'' = Some (PBool True)"
    "strArg (dataBucket ''dev'' 1700000000000) ''bucket'' =
     Some (Lit ''data-pipeline-data-dev-1700000000000'')"
    "strArg (dataBucket ''prod'' 1700000000001) ''bucket'' =
     Some (Lit ''data-pipeline-data-prod-1700000000001'')"
    by (simp_all add: strArg_def arg_def dataBucket_def projectName_def numberToString_example
        numberToString_example2)
  then show ?thesis
    using bucket_name_eq_iff[of environment t1 t2] bucket_name_env_iff[of e1 now e2]
    by (simp add: projectName_def)
qed

text \<open>
  C9. The table descriptor carries eleven columns in the order written, from \<open>VENDOR_ID\<close>
  to \<open>LOADED_AT\<close>; every column has a name and a type, and \<open>LOADED_AT\<close> alone has a
  default, the expression \<open>CURRENT_TIMESTAMP()\<close>.
\<close>

theorem table_columns:
  "length (columns taxiTable) = 11
   \<and> map (\<lambda>c. field c ''name'') (columns taxiTable) = map (\<lambda>n. Some (PStr (Lit n)))
       [''VENDOR_ID'', ''PICKUP_DATETIME'', ''DROPOFF_DATETIME'', ''PASSENGER_COUNT'',
        ''TRIP_DISTANCE'', ''PICKUP_LOCATION_ID'', ''DROPOFF_LOCATION_ID'', ''FARE_AMOUNT'',
        ''TIP_AMOUNT'', ''TOTAL_AMOUNT'', ''LOADED_AT'']
   \<and> map (\<lambda>c. field c ''type'') (columns taxiTable) = map (\<lambda>n. Some (PStr (Lit n)))
       [''NUMBER'', ''TIMESTAMP'', ''TIMESTAMP'', ''NUMBER'', ''FLOAT'', ''NUMBER'', ''NUMBER'',
        ''FLOAT'', ''FLOAT'', ''FLOAT'', ''TIMESTAMP'']
   \<and> map (\<lambda>c. field c ''default'') (columns taxiTable) =
       [None, None, None, None, None, None, None, None, None, None,
        Some (PObj [(''expression'', PStr (Lit ''CURRENT_TIMESTAMP()''))])]
   \<and> filter (\<lambda>r. kind r = snowflake_Table) (program environment now) = [taxiTable]"
  by (simp add: columns_def arg_def taxiTable_def table_is_last[unfolded taxiTable_def])

text \<open>
  C10. For every ARN the provider assigns to the bucket, the bucket policy resolves to the
  policy text written out below, the serialisation of a document over that ARN; its single
  statement allows \<open>s3:GetObject\<close>, \<open>s3:GetObjectVersion\<close> and \<open>s3:ListBucket\<close> on the bucket
  and on every object under it to the principal \<open>*\<close>, with no condition. The last conjunct
  is the text for the ARN \<open>arn:aws:s3:::data-pipeline-data-dev-1700000000000\<close>.
\<close>

theorem bucket_policy_grants_everyone:
  "map_option (resolve \<sigma>) (strArg (bucketPolicy environment now) ''policy'')
     = Some (JSON_stringify
         (bucketPolicyDocument (\<sigma> (logicalName (dataBucket environment now)) ''arn'')))
   \<and> JSON_stringify (bucketPolicyDocument a) =
     ''{'' @ CHR 0x22 # ''Version'' @ CHR 0x22 # '':'' @ CHR 0x22 # ''2012-10-17'' @
     CHR 0x22 # '','' @ CHR 0x22 # ''Statement'' @ CHR 0x22 # '':[{'' @ CHR 0x22 # ''Sid'' @
     CHR 0x22 # '':'' @ CHR 0x22 # ''AllowSnowflakeAccess'' @ CHR 0x22 # '','' @ CHR 0x22 #
     ''Effect'' @ CHR 0x22 # '':'' @ CHR 0x22 # ''Allow'' @ CHR 0x22 # '','' @ CHR 0x22 #
     ''Principal'' @ CHR 0x22 # '':'' @ CHR 0x22 # ''*'' @ CHR 0x22 # '','' @ CHR 0x22 #
     ''Action'' @ CHR 0x22 # '':['' @ CHR 0x22 # ''s3:GetObject'' @ CHR 0x22 # '','' @
     CHR 0x22 # ''s3:GetObjectVersion'' @ CHR 0x22 # '','' @ CHR 0x22 # ''s3:ListBucket'' @
     CHR 0x22 # ''],'' @ CHR 0x22 # ''Resource'' @ CHR 0x22 # '':['' @ CHR 0x22 #
     concat (map quoteChar a) @ CHR 0x22 # '','' @ CHR 0x22 # concat (map quoteChar a) @
     ''/*'' @ CHR 0x22 # '']}]}''
   \<and> map_option (resolve (\<lambda>r k. ''arn:aws:s3:::data-pipeline-data-dev-1700000000000''))
       (strArg (bucketPolicy environment now) ''policy'')
     = Some (
         ''{'' @ CHR 0x22 # ''Version'' @ CHR 0x22 # '':'' @ CHR 0x22 # ''2012-10-17'' @
         CHR 0x22 # '','' @ CHR 0x22 # ''Statement'' @ CHR 0x22 # '':[{'' @ CHR 0x22 #
         ''Sid'' @ CHR 0x22 # '':'' @ CHR 0x22 # ''AllowSnowflakeAccess'' @ CHR 0x22 #
         '','' @ CHR 0x22 # ''Effect'' @ CHR 0x22 # '':'' @ CHR 0x22 # ''Allow'' @
         CHR 0x22 # '','' @ CHR 0x22 # ''Principal'' @ CHR 0x22 # '':'' @ CHR 0x22 # ''*'' @
         CHR 0x22 # '','' @ CHR 0x22 # ''Action'' @ CHR 0x22 # '':['' @ CHR 0x22 #
         ''s3:GetObject'' @ CHR 0x22 # '','' @ CHR 0x22 # ''s3:GetObjectVersion'' @
         CHR 0x22 # '','' @ CHR 0x22 # ''s3:ListBucket'' @ CHR 0x22 # ''],'' @ CHR 0x22 #
         ''Resource'' @ CHR 0x22 # '':['' @ CHR 0x22 #
         ''arn:aws:s3:::data-pipeline-data-dev-1700000000000'' @ CHR 0x22 # '','' @
         CHR 0x22 # ''arn:aws:s3:::data-pipeline-data-dev-1700000000000/*'' @ CHR 0x22 #
         '']}]}'')
   \<and> strArg (bucketPolicy environment now) ''bucket''
     = Some (Attr (logicalName (dataBucket environment now)) ''id'')
   \<and> length (statements (bucketPolicyDocument a)) = 1
   \<and> map (\<lambda>s. jsonMember s ''Effect'') (statements (bucketPolicyDocument a))
     = [Some (JStr ''Allow'')]
   \<and> map (\<lambda>s. jsonMember s ''Principal'') (statements (bucketPolicyDocument a))
     = [Some (JStr ''*'')]
   \<and> map (\<lambda>s. jsonMember s ''Action'') (statements (bucketPolicyDocument a))
     = [Some (JArr [JStr ''s3:GetObject'', JStr ''s3:GetObjectVersion'', JStr ''s3:ListBucket''])]
   \<and> map (\<lambda>s. jsonMember s ''Resource'') (statements (bucketPolicyDocument a))
     = [Some (JArr [JStr a, JStr (a @ ''/*'')])]
   \<and> map (\<lambda>s. jsonMember s ''Condition'') (statements (bucketPolicyDocument a)) = [None]"
proof -
  have policy: "map_option (resolve \<tau>) (strArg (bucketPolicy environment now) ''policy'')
     = Some (JSON_stringify
         (bucketPolicyDocument (\<tau> (logicalName (dataBucket environment now)) ''arn'')))" for \<tau>
    by (simp add: strArg_def arg_def bucketPolicy_def logicalName_simps)
  have "map_option (resolve (\<lambda>r k. ''arn:aws:s3:::data-pipeline-data-dev-1700000000000''))
       (strArg (bucketPolicy environment now) ''policy'')
     = Some (
         ''{'' @ CHR 0x22 # ''Version'' @ CHR 0x22 # '':'' @ CHR 0x22 # ''2012-10-17'' @
         CHR 0x22 # '','' @ CHR 0x22 # ''Statement'' @ CHR 0x22 # '':[{'' @ CHR 0x22 #
         ''Sid'' @ CHR 0x22 # '':'' @ CHR 0x22 # ''AllowSnowflakeAccess'' @ CHR 0x22 #
         '','' @ CHR 0x22 # ''Effect'' @ CHR 0x22 # '':'' @ CHR 0x22 # ''Allow'' @
         CHR 0x22 # '','' @ CHR 0x22 # ''Principal'' @ CHR 0x22 # '':'' @ CHR 0x22 # ''*'' @
         CHR 0x22 # '','' @ CHR 0x22 # ''Action'' @ CHR 0x22 # '':['' @ CHR 0x22 #
         ''s3:GetObject'' @ CHR 0x22 # '','' @ CHR 0x22 # ''s3:GetObjectVersion'' @
         CHR 0x22 # '','' @ CHR 0x22 # ''s3:ListBucket'' @ CHR 0x22 # ''],'' @ CHR 0x22 #
         ''Resource'' @ CHR 0x22 # '':['' @ CHR 0x22 #
         ''arn:aws:s3:::data-pipeline-data-dev-1700000000000'' @ CHR 0x22 # '','' @
         CHR 0x22 # ''arn:aws:s3:::data-pipeline-data-dev-1700000000000/*'' @ CHR 0x22 #
         '']}]}'')"
    unfolding policy bucket_policy_text quoted_example_arn by simp
  moreover have "strArg (bucketPolicy environment now) ''bucket''
     = Some (Attr (logicalName (dataBucket environment now)) ''id'')"
    by (simp add: strArg_def arg_def bucketPolicy_def logicalName_simps)
  ultimately show ?thesis
    using policy[of \<sigma>] bucket_policy_text[of a] by (simp add: statements_bucketPolicy)
qed

end
